theory Spec2Isabelle
  imports Complex_Main
begin

section \<open>Scene-graph data\<close>

text \<open>
  JavaScript numbers are modelled as reals: every statement below is about the
  exact arithmetic of the formulas, not about IEEE rounding.

  \<^verbatim>\<open>THREE.Vector3\<close> has the components \<^verbatim>\<open>x\<close>, \<^verbatim>\<open>y\<close>, \<^verbatim>\<open>z\<close>; they are the fields
  \<open>vec_x\<close>, \<open>vec_y\<close>, \<open>vec_z\<close>. \<^verbatim>\<open>THREE.Euler\<close> (the \<^verbatim>\<open>rotation\<close> of an object) has
  the angles \<^verbatim>\<open>x\<close> (pitch), \<^verbatim>\<open>y\<close> (yaw), \<^verbatim>\<open>z\<close> (roll); they are \<open>rot_x\<close>, \<open>rot_y\<close>,
  \<open>rot_z\<close>.
\<close>

record Vector3 =
  vec_x :: real
  vec_y :: real
  vec_z :: real

record Euler =
  rot_x :: real
  rot_y :: real
  rot_z :: real

record Object3D =
  position :: Vector3
  rotation :: Euler

definition Vector3_set :: "real \<Rightarrow> real \<Rightarrow> real \<Rightarrow> Vector3" where
  "Vector3_set a b c = \<lparr>vec_x = a, vec_y = b, vec_z = c\<rparr>"

definition multiplyScalar :: "Vector3 \<Rightarrow> real \<Rightarrow> Vector3" where
  "multiplyScalar v s = \<lparr>vec_x = vec_x v * s, vec_y = vec_y v * s, vec_z = vec_z v * s\<rparr>"

definition Vector3_add :: "Vector3 \<Rightarrow> Vector3 \<Rightarrow> Vector3" where
  "Vector3_add a b =
     \<lparr>vec_x = vec_x a + vec_x b, vec_y = vec_y a + vec_y b, vec_z = vec_z a + vec_z b\<rparr>"

section \<open>Orbital motion: \<^verbatim>\<open>PlanetPhysics\<close>\<close>

text \<open>
  \<^verbatim>\<open>PhysicsParams\<close> is used by \<^verbatim>\<open>updatePosition\<close> through four members; its
  declaration is not part of the sources, so \<open>rotationCenter\<close> is taken to be a
  point with three coordinates, as the data model of the specification has it.
  The accumulated phase \<^verbatim>\<open>this.t\<close> is the field \<open>phase_t\<close>.
\<close>

record PhysicsParams =
  radius :: real
  rotationVelocity :: real
  selfRotationVelocity :: real
  rotationCenter :: Vector3

record PlanetPhysics =
  ownMesh :: Object3D
  params :: PhysicsParams
  phase_t :: real

text \<open>
  \<^verbatim>\<open>
  updatePosition(dt: number) {
      const x = this.params.radius * Math.sin(this.t * this.params.rotationVelocity) + this.params.rotationCenter.x;
      const z = this.params.radius * Math.cos(this.t * this.params.rotationVelocity) + this.params.rotationCenter.z;
      this.ownMesh.position.set(x, 0, z);
      this.ownMesh.rotation.y += this.params.selfRotationVelocity * dt;
  }
  \<close>
\<close>

definition updatePosition :: "PlanetPhysics \<Rightarrow> real \<Rightarrow> PlanetPhysics" where
  "updatePosition p dt =
     (let x = radius (params p) * sin (phase_t p * rotationVelocity (params p))
                + vec_x (rotationCenter (params p));
          z = radius (params p) * cos (phase_t p * rotationVelocity (params p))
                + vec_z (rotationCenter (params p));
          m = ownMesh p
      in p\<lparr>ownMesh :=
             m\<lparr>position := Vector3_set x 0 z,
               rotation := (rotation m)\<lparr>rot_y :=
                  rot_y (rotation m) + selfRotationVelocity (params p) * dt\<rparr>\<rparr>\<rparr>)"

text \<open>
  Modelled from the spec: the statement that advances \<^verbatim>\<open>this.t\<close> is not part of the
  sources (the excerpt of \<^verbatim>\<open>PlanetPhysics\<close> shows the constructor and
  \<^verbatim>\<open>updatePosition\<close> only). The specification has the updater accumulate its
  internal phase by \<^verbatim>\<open>t += dt\<close> and compute the position from the accumulated
  phase.
\<close>

definition advancePhase :: "PlanetPhysics \<Rightarrow> real \<Rightarrow> PlanetPhysics" where
  "advancePhase p dt = p\<lparr>phase_t := phase_t p + dt\<rparr>"

definition advance :: "PlanetPhysics \<Rightarrow> real \<Rightarrow> PlanetPhysics" where
  "advance p dt = updatePosition (advancePhase p dt) dt"

text \<open>The positions written to the mesh by a run of advances, one per \<open>dt\<close>.\<close>

fun positions :: "PlanetPhysics \<Rightarrow> real list \<Rightarrow> Vector3 list" where
  "positions p [] = []"
| "positions p (dt # dts) = position (ownMesh (advance p dt)) # positions (advance p dt) dts"

text \<open>The scenario body: radius 5, angular velocity 1, centre at the origin, phase 0.\<close>

definition scenarioBody :: PlanetPhysics where
  "scenarioBody =
     \<lparr>ownMesh = \<lparr>position = Vector3_set 0 0 0, rotation = \<lparr>rot_x = 0, rot_y = 0, rot_z = 0\<rparr>\<rparr>,
      params = \<lparr>radius = 5, rotationVelocity = 1, selfRotationVelocity = 0,
                rotationCenter = Vector3_set 0 0 0\<rparr>,
      phase_t = 0\<rparr>"

text \<open>A body whose orbit centre lies off the plane \<open>y = 0\<close>.\<close>

definition raisedBody :: PlanetPhysics where
  "raisedBody =
     \<lparr>ownMesh = \<lparr>position = Vector3_set 0 0 0, rotation = \<lparr>rot_x = 0, rot_y = 0, rot_z = 0\<rparr>\<rparr>,
      params = \<lparr>radius = 5, rotationVelocity = 1, selfRotationVelocity = 0,
                rotationCenter = Vector3_set 0 1 0\<rparr>,
      phase_t = 0\<rparr>"

section \<open>Ship control\<close>

text \<open>
  \<^verbatim>\<open>currentPlanet\<close> is \<^verbatim>\<open>null\<close> (free view), a \<^verbatim>\<open>PlanetPhysics\<close> of the button list
  (identified here by its index), or the object \<^verbatim>\<open>{ mesh: null, spacial: true }\<close>
  that the ship button stores. \<^verbatim>\<open>currentPlanet?.spacial\<close> is truthy for the last
  one only.
\<close>

datatype CurrentPlanet = Null | Planet nat | Spacial

fun spacial :: "CurrentPlanet \<Rightarrow> bool" where
  "spacial Spacial = True"
| "spacial _ = False"

text \<open>
  The module-level variables of \<^verbatim>\<open>main.ts\<close> that the ship code reads and writes.
  \<^verbatim>\<open>spaceShip\<close> is \<^verbatim>\<open>null\<close> (\<open>None\<close>) until the loader's callback has run.
\<close>

record World =
  spaceShip :: "Object3D option"
  cameraPivot :: Object3D
  currentPlanet :: CurrentPlanet
  moveForward :: bool
  moveBackward :: bool
  rotateLeft :: bool
  rotateRight :: bool

text \<open>
  \<^verbatim>\<open>String.prototype.toLowerCase\<close> on the ASCII letters. The only strings it maps to
  \<^verbatim>\<open>"w"\<close>, \<^verbatim>\<open>"s"\<close>, \<^verbatim>\<open>"a"\<close>, \<^verbatim>\<open>"d"\<close> are these and their capitals, so the
  \<^verbatim>\<open>switch\<close> below takes the same branch as in JavaScript.
\<close>

definition toLowerCase_char :: "char \<Rightarrow> char" where
  "toLowerCase_char c =
     (let n = (of_char c :: nat) in if 65 \<le> n \<and> n \<le> 90 then char_of (n + 32) else c)"

definition toLowerCase :: "string \<Rightarrow> string" where
  "toLowerCase s = map toLowerCase_char s"

text \<open>
  \<^verbatim>\<open>
  window.addEventListener("keydown", (event) => {
      if (currentPlanet?.spacial && spaceShip) {
          switch (event.key.toLowerCase()) {
              case "w": moveForward = true; break;
              case "s": moveBackward = true; break;
              case "a": rotateLeft = true; break;
              case "d": rotateRight = true; break;
          }
      }
  });
  \<close>
\<close>

definition keydown :: "string \<Rightarrow> World \<Rightarrow> World" where
  "keydown key w =
     (if spacial (currentPlanet w) \<and> spaceShip w \<noteq> None then
        (let k = toLowerCase key in
           if k = ''w'' then w\<lparr>moveForward := True\<rparr>
           else if k = ''s'' then w\<lparr>moveBackward := True\<rparr>
           else if k = ''a'' then w\<lparr>rotateLeft := True\<rparr>
           else if k = ''d'' then w\<lparr>rotateRight := True\<rparr>
           else w)
      else w)"

text \<open>
  \<^verbatim>\<open>
  window.addEventListener("keyup", (event) => {
      switch (event.key.toLowerCase()) {
          case "w": moveForward = false; break;
          case "s": moveBackward = false; break;
          case "a": rotateLeft = false; break;
          case "d": rotateRight = false; break;
      }
  });
  \<close>
\<close>

definition keyup :: "string \<Rightarrow> World \<Rightarrow> World" where
  "keyup key w =
     (let k = toLowerCase key in
        if k = ''w'' then w\<lparr>moveForward := False\<rparr>
        else if k = ''s'' then w\<lparr>moveBackward := False\<rparr>
        else if k = ''a'' then w\<lparr>rotateLeft := False\<rparr>
        else if k = ''d'' then w\<lparr>rotateRight := False\<rparr>
        else w)"

text \<open>The four directions, the key of each, and the flag of each, read and written.\<close>

datatype Direction = Forward | Backward | YawLeft | YawRight

fun keyOf :: "Direction \<Rightarrow> string" where
  "keyOf Forward = ''w''"
| "keyOf Backward = ''s''"
| "keyOf YawLeft = ''a''"
| "keyOf YawRight = ''d''"

fun flag :: "Direction \<Rightarrow> World \<Rightarrow> bool" where
  "flag Forward w = moveForward w"
| "flag Backward w = moveBackward w"
| "flag YawLeft w = rotateLeft w"
| "flag YawRight w = rotateRight w"

fun setFlag :: "Direction \<Rightarrow> bool \<Rightarrow> World \<Rightarrow> World" where
  "setFlag Forward b w = w\<lparr>moveForward := b\<rparr>"
| "setFlag Backward b w = w\<lparr>moveBackward := b\<rparr>"
| "setFlag YawLeft b w = w\<lparr>rotateLeft := b\<rparr>"
| "setFlag YawRight b w = w\<lparr>rotateRight := b\<rparr>"

text \<open>
  \<^verbatim>\<open>THREE.MathUtils.lerp(x, y, t)\<close> is library code; the library defines it as
  \<^verbatim>\<open>(1 - t) * x + t * y\<close>.
\<close>

definition lerp :: "real \<Rightarrow> real \<Rightarrow> real \<Rightarrow> real" where
  "lerp x y t = (1 - t) * x + t * y"

text \<open>
  \<^verbatim>\<open>
  function moveAndRotateSpaceShip() {
      if (spaceShip) {
          const direction = new THREE.Vector3();
          spaceShip.getWorldDirection(direction);
          const tiltAngle = 0.4;
          const forwardTiltAngle = 0.2;
          const tiltSpeed = 0.03;
          spaceShip.position.add(direction.multiplyScalar(0.3));
          if (moveBackward) {
              spaceShip.rotation.x = THREE.MathUtils.lerp(spaceShip.rotation.x, forwardTiltAngle, tiltSpeed);
          } else if (moveForward) {
              spaceShip.rotation.x = THREE.MathUtils.lerp(spaceShip.rotation.x, -forwardTiltAngle, tiltSpeed);
          } else {
              spaceShip.rotation.x = THREE.MathUtils.lerp(spaceShip.rotation.x, 0, tiltSpeed);
          }
          if (rotateLeft) {
              spaceShip.rotation.y += 0.005;
              cameraPivot.rotation.y += 0.005;
              spaceShip.rotation.z = THREE.MathUtils.lerp(spaceShip.rotation.z, -tiltAngle, tiltSpeed);
          } else if (rotateRight) {
              spaceShip.rotation.y -= 0.005;
              cameraPivot.rotation.y -= 0.005;
              spaceShip.rotation.z = THREE.MathUtils.lerp(spaceShip.rotation.z, tiltAngle, tiltSpeed);
          } else {
              spaceShip.rotation.z = THREE.MathUtils.lerp(spaceShip.rotation.z, 0, tiltSpeed);
          }
          cameraPivot.position.copy(spaceShip.position);
      }
  }
  \<close>
  \<^verbatim>\<open>Object3D.getWorldDirection\<close> is library code: it is the parameter
  \<open>getWorldDirection\<close>, a function of the ship's transform. The model threads the
  ship and the pivot through the statements in the order of the source.

  This is the full listing of the function. The shorter documentation file shows a
  two-statement sketch under the same name (\<^verbatim>\<open>if (moveForward) spaceShip.position.add(new THREE.Vector3(0, 0, 0.3));\<close>
  and \<^verbatim>\<open>if (rotateLeft) spaceShip.rotation.y += 0.005;\<close>), without the guard, the
  tilt and the camera pivot; it is not what is modelled here.
\<close>

definition moveAndRotateSpaceShip :: "(Object3D \<Rightarrow> Vector3) \<Rightarrow> World \<Rightarrow> World" where
  "moveAndRotateSpaceShip getWorldDirection w =
     (case spaceShip w of
        None \<Rightarrow> w
      | Some s0 \<Rightarrow>
          (let direction = getWorldDirection s0;
               tiltAngle = 0.4;
               forwardTiltAngle = 0.2;
               tiltSpeed = 0.03;
               c0 = cameraPivot w;
               s1 = s0\<lparr>position := Vector3_add (position s0) (multiplyScalar direction 0.3)\<rparr>;
               s2 = s1\<lparr>rotation := (rotation s1)\<lparr>rot_x :=
                      (if moveBackward w then lerp (rot_x (rotation s1)) forwardTiltAngle tiltSpeed
                       else if moveForward w then lerp (rot_x (rotation s1)) (- forwardTiltAngle) tiltSpeed
                       else lerp (rot_x (rotation s1)) 0 tiltSpeed)\<rparr>\<rparr>;
               s3 = (if rotateLeft w then
                       s2\<lparr>rotation := (rotation s2)\<lparr>rot_y := rot_y (rotation s2) + 0.005,
                            rot_z := lerp (rot_z (rotation s2)) (- tiltAngle) tiltSpeed\<rparr>\<rparr>
                     else if rotateRight w then
                       s2\<lparr>rotation := (rotation s2)\<lparr>rot_y := rot_y (rotation s2) - 0.005,
                            rot_z := lerp (rot_z (rotation s2)) tiltAngle tiltSpeed\<rparr>\<rparr>
                     else
                       s2\<lparr>rotation := (rotation s2)\<lparr>rot_z := lerp (rot_z (rotation s2)) 0 tiltSpeed\<rparr>\<rparr>);
               c1 = (if rotateLeft w then
                       c0\<lparr>rotation := (rotation c0)\<lparr>rot_y := rot_y (rotation c0) + 0.005\<rparr>\<rparr>
                     else if rotateRight w then
                       c0\<lparr>rotation := (rotation c0)\<lparr>rot_y := rot_y (rotation c0) - 0.005\<rparr>\<rparr>
                     else c0);
               c2 = c1\<lparr>position := position s3\<rparr>
           in w\<lparr>spaceShip := Some s3, cameraPivot := c2\<rparr>))"


text \<open>Pitch, yaw and roll of the loaded ship.\<close>

definition pitch :: "Object3D \<Rightarrow> real" where
  "pitch s = rot_x (rotation s)"

definition yaw :: "Object3D \<Rightarrow> real" where
  "yaw s = rot_y (rotation s)"

definition roll :: "Object3D \<Rightarrow> real" where
  "roll s = rot_z (rotation s)"

text \<open>The tilt bounds: roll within 0.4 rad and pitch within 0.2 rad of level.\<close>

definition tiltBounded :: "Object3D \<Rightarrow> bool" where
  "tiltBounded s = (\<bar>roll s\<bar> \<le> 0.4 \<and> \<bar>pitch s\<bar> \<le> 0.2)"

text \<open>
  Example worlds: the ship as the loader places it (position \<open>(20, 0, -500)\<close>, no
  rotation), the pivot at the origin; and the world before the model has loaded.
\<close>

definition loadedShip :: Object3D where
  "loadedShip = \<lparr>position = Vector3_set 20 0 (- 500), rotation = \<lparr>rot_x = 0, rot_y = 0, rot_z = 0\<rparr>\<rparr>"

definition originPivot :: Object3D where
  "originPivot = \<lparr>position = Vector3_set 0 0 0, rotation = \<lparr>rot_x = 0, rot_y = 0, rot_z = 0\<rparr>\<rparr>"

definition unloadedWorld :: World where
  "unloadedWorld =
     \<lparr>spaceShip = None, cameraPivot = originPivot, currentPlanet = Spacial,
      moveForward = True, moveBackward = False, rotateLeft = True, rotateRight = False\<rparr>"

definition shipWorld :: World where
  "shipWorld =
     \<lparr>spaceShip = Some loadedShip, cameraPivot = originPivot, currentPlanet = Spacial,
      moveForward = False, moveBackward = False, rotateLeft = False, rotateRight = False\<rparr>"

text \<open>The loaded ship with all four keys held; a ship tilted to the bounds.\<close>

definition allKeysWorld :: World where
  "allKeysWorld =
     shipWorld\<lparr>moveForward := True, moveBackward := True, rotateLeft := True, rotateRight := True\<rparr>"

definition tiltedShip :: Object3D where
  "tiltedShip =
     \<lparr>position = Vector3_set 20 0 (- 500), rotation = \<lparr>rot_x = 0.2, rot_y = 0, rot_z = - 0.4\<rparr>\<rparr>"


text \<open>The direction an unrotated object faces: the positive \<open>z\<close> axis.\<close>

definition zAxis :: "Object3D \<Rightarrow> Vector3" where
  "zAxis s = Vector3_set 0 0 1"

section \<open>Orbital position\<close>

lemma updatePosition_position:
  "position (ownMesh (updatePosition p dt)) =
     \<lparr>vec_x = radius (params p) * sin (phase_t p * rotationVelocity (params p))
                + vec_x (rotationCenter (params p)),
      vec_y = 0,
      vec_z = radius (params p) * cos (phase_t p * rotationVelocity (params p))
                + vec_z (rotationCenter (params p))\<rparr>"
  by (simp add: updatePosition_def Vector3_set_def Let_def)

text \<open>
  C1, as the code has it: for every body (in particular every one with a positive
  radius), \<^verbatim>\<open>updatePosition\<close> places the mesh at
  \<open>x = r * sin (t * w) + c.x\<close>, \<open>z = r * cos (t * w) + c.z\<close> and \<open>y = 0\<close>: the
  orbit lies in the plane \<open>y = 0\<close> whatever the height of its centre.
\<close>

theorem updatePosition_planar_y_zero:
  "vec_x (position (ownMesh (updatePosition p dt))) =
     radius (params p) * sin (phase_t p * rotationVelocity (params p))
       + vec_x (rotationCenter (params p)) \<and>
   vec_z (position (ownMesh (updatePosition p dt))) =
     radius (params p) * cos (phase_t p * rotationVelocity (params p))
       + vec_z (rotationCenter (params p)) \<and>
   vec_y (position (ownMesh (updatePosition p dt))) = 0"
  by (simp add: updatePosition_position)

text \<open>
  C1 as stated fails: a body of radius 5 whose centre is \<open>(0, 1, 0)\<close> is placed
  at height 0, not at the height 1 of its centre.
\<close>

theorem updatePosition_ignores_center_y:
  "0 < radius (params raisedBody) \<and>
   vec_y (rotationCenter (params raisedBody)) = 1 \<and>
   vec_y (position (ownMesh (updatePosition raisedBody 0.01))) = 0 \<and>
   vec_y (position (ownMesh (updatePosition raisedBody 0.01)))
     \<noteq> vec_y (rotationCenter (params raisedBody))"
  by (simp add: updatePosition_position raisedBody_def Vector3_set_def)

section \<open>Periodicity and the quarter-turn scenario\<close>

lemma advance_params: "params (advance p dt) = params p"
  by (simp add: advance_def advancePhase_def updatePosition_def Let_def)

lemma advance_phase: "phase_t (advance p dt) = phase_t p + dt"
  by (simp add: advance_def advancePhase_def updatePosition_def Let_def)

lemma advance_position:
  "position (ownMesh (advance p dt)) =
     position (ownMesh (updatePosition (p\<lparr>phase_t := phase_t p + dt\<rparr>) d))"
  by (simp add: advance_def advancePhase_def updatePosition_position)

text \<open>The last position of a run is the one of the starting phase plus the sum of the steps.\<close>

lemma last_positions:
  "dts \<noteq> [] \<Longrightarrow>
   last (positions p dts) =
     position (ownMesh (updatePosition (p\<lparr>phase_t := phase_t p + sum_list dts\<rparr>) d))"
proof (induction dts arbitrary: p)
  case Nil
  then show ?case by simp
next
  case (Cons dt dts)
  show ?case
  proof (cases "dts = []")
    case True
    then show ?thesis by (simp add: advance_position [of p dt d])
  next
    case False
    then have "positions (advance p dt) dts \<noteq> []" by (cases dts) simp_all
    with False Cons.IH [of "advance p dt"] show ?thesis
      by (simp add: advance_phase advance_params updatePosition_position add.assoc)
  qed
qed

lemma sin_cos_three_quarters: "sin (3 * pi / 2) = - 1" "cos (3 * pi / 2) = 0"
proof -
  have e: "3 * pi / 2 = 3 / 2 * pi" by simp
  show "sin (3 * pi / 2) = - 1" unfolding e by (rule sin_3over2_pi)
  show "cos (3 * pi / 2) = 0" unfolding e by (rule cos_3over2_pi)
qed

text \<open>
  C8: for a body with nonzero angular velocity (whatever its radius, so in
  particular for every positive one), advancing the phase by steps \<open>dts\<close> that sum
  to one period \<open>2 * pi / rotationVelocity\<close> computes, at the last step, exactly the
  position that \<^verbatim>\<open>updatePosition\<close> computes at the starting phase. The statement is
  over the reals.
\<close>

theorem orbit_full_period_returns:
  assumes "rotationVelocity (params p) \<noteq> 0"
      and "sum_list dts = 2 * pi / rotationVelocity (params p)"
  shows "positions p dts \<noteq> [] \<and>
         last (positions p dts) = position (ownMesh (updatePosition p d))"
proof -
  have ne: "dts \<noteq> []"
  proof
    assume "dts = []"
    with assms show False by simp
  qed
  have "(phase_t p + sum_list dts) * rotationVelocity (params p)
          = phase_t p * rotationVelocity (params p) + 2 * pi"
    using assms by (simp add: distrib_right)
  then have "last (positions p dts) = position (ownMesh (updatePosition p d))"
    by (simp add: last_positions [OF ne, of p d] updatePosition_position)
  moreover from ne have "positions p dts \<noteq> []" by (cases dts) simp_all
  ultimately show ?thesis by simp
qed

text \<open>
  Witness for C8: the scenario body (angular velocity 1) advanced by three unequal
  steps that sum to \<open>2 * pi\<close>.
\<close>

theorem orbit_full_period_returns_witness:
  "rotationVelocity (params scenarioBody) \<noteq> 0 \<and>
   sum_list [pi / 2, pi, pi / 2] = 2 * pi / rotationVelocity (params scenarioBody) \<and>
   positions scenarioBody [pi / 2, pi, pi / 2] \<noteq> [] \<and>
   last (positions scenarioBody [pi / 2, pi, pi / 2])
     = position (ownMesh (updatePosition scenarioBody 0))"
proof -
  have h1: "rotationVelocity (params scenarioBody) \<noteq> 0"
    by (simp add: scenarioBody_def)
  have h2: "sum_list [pi / 2, pi, pi / 2] = 2 * pi / rotationVelocity (params scenarioBody)"
    by (simp add: scenarioBody_def)
  from orbit_full_period_returns [OF h1 h2, of 0] h1 h2 show ?thesis by blast
qed

text \<open>
  C9, as the code has it: with radius 5, angular velocity 1 and centre at the
  origin, the position at phase 0 is \<open>(0, 0, 5)\<close>, and the four advances by
  \<open>pi / 2\<close> compute \<open>(5, 0, 0)\<close>, \<open>(0, 0, -5)\<close>, \<open>(-5, 0, 0)\<close>, \<open>(0, 0, 5)\<close>, exactly
  over the reals.
\<close>

theorem quarter_turn_scenario_positions:
  "position (ownMesh (updatePosition scenarioBody 0)) = Vector3_set 0 0 5 \<and>
   positions scenarioBody [pi / 2, pi / 2, pi / 2, pi / 2] =
     [Vector3_set 5 0 0, Vector3_set 0 0 (- 5), Vector3_set (- 5) 0 0, Vector3_set 0 0 5]"
  by (simp add: scenarioBody_def advance_def advancePhase_def updatePosition_def Let_def
        Vector3_set_def sin_cos_three_quarters)

text \<open>
  C9 as stated fails: the claimed sequence starts and ends at \<open>(5, 0, 0)\<close>, but the
  position at phase 0 and the position after four advances by \<open>pi / 2\<close> are both
  \<open>(0, 0, 5)\<close>, at distance 5 from the claimed point on the \<open>x\<close> axis and on the
  \<open>z\<close> axis.
\<close>

theorem quarter_turn_scenario_not_as_claimed:
  "position (ownMesh (updatePosition scenarioBody 0)) = Vector3_set 0 0 5 \<and>
   last (positions scenarioBody [pi / 2, pi / 2, pi / 2, pi / 2]) = Vector3_set 0 0 5 \<and>
   \<bar>vec_x (Vector3_set 5 0 0) - vec_x (Vector3_set 0 0 5)\<bar> = 5 \<and>
   \<bar>vec_z (Vector3_set 5 0 0) - vec_z (Vector3_set 0 0 5)\<bar> = 5 \<and>
   last (positions scenarioBody [pi / 2, pi / 2, pi / 2, pi / 2]) \<noteq> Vector3_set 5 0 0"
  by (simp add: scenarioBody_def advance_def advancePhase_def updatePosition_def Let_def
        Vector3_set_def sin_cos_three_quarters)

section \<open>One tick of the ship\<close>

text \<open>What one call does to a loaded ship, to the pivot and to the flags.\<close>

lemma step_Some:
  "spaceShip w = Some s \<Longrightarrow>
   spaceShip (moveAndRotateSpaceShip g w) =
     Some (s\<lparr>position := Vector3_add (position s) (multiplyScalar (g s) 0.3),
             rotation :=
               \<lparr>rot_x = (if moveBackward w then lerp (rot_x (rotation s)) 0.2 0.03
                         else if moveForward w then lerp (rot_x (rotation s)) (- 0.2) 0.03
                         else lerp (rot_x (rotation s)) 0 0.03),
                rot_y = (if rotateLeft w then rot_y (rotation s) + 0.005
                         else if rotateRight w then rot_y (rotation s) - 0.005
                         else rot_y (rotation s)),
                rot_z = (if rotateLeft w then lerp (rot_z (rotation s)) (- 0.4) 0.03
                         else if rotateRight w then lerp (rot_z (rotation s)) 0.4 0.03
                         else lerp (rot_z (rotation s)) 0 0.03)\<rparr>\<rparr>)"
  by (simp add: moveAndRotateSpaceShip_def Let_def)

lemma step_pivot:
  "spaceShip w = Some s \<Longrightarrow>
   cameraPivot (moveAndRotateSpaceShip g w) =
     (cameraPivot w)\<lparr>position := Vector3_add (position s) (multiplyScalar (g s) 0.3),
        rotation := (rotation (cameraPivot w))\<lparr>rot_y :=
           (if rotateLeft w then rot_y (rotation (cameraPivot w)) + 0.005
            else if rotateRight w then rot_y (rotation (cameraPivot w)) - 0.005
            else rot_y (rotation (cameraPivot w)))\<rparr>\<rparr>"
  by (simp add: moveAndRotateSpaceShip_def Let_def)


lemma step_loaded:
  "spaceShip w = Some s \<Longrightarrow> \<exists>s'. spaceShip (moveAndRotateSpaceShip g w) = Some s'"
  by (simp add: step_Some)

lemma step_pitch:
  "spaceShip w = Some s \<Longrightarrow> spaceShip (moveAndRotateSpaceShip g w) = Some s' \<Longrightarrow>
   pitch s' =
     lerp (pitch s) (if moveBackward w then 0.2 else if moveForward w then - 0.2 else 0) 0.03"
  by (auto simp add: step_Some pitch_def)

lemma step_roll:
  "spaceShip w = Some s \<Longrightarrow> spaceShip (moveAndRotateSpaceShip g w) = Some s' \<Longrightarrow>
   roll s' =
     lerp (roll s) (if rotateLeft w then - 0.4 else if rotateRight w then 0.4 else 0) 0.03"
  by (auto simp add: step_Some roll_def)


lemma lerp_bound: "\<bar>x\<bar> \<le> b \<Longrightarrow> \<bar>y\<bar> \<le> b \<Longrightarrow> \<bar>lerp x y 0.03\<bar> \<le> b"
  unfolding lerp_def by (simp add: abs_le_iff)


text \<open>
  C2: with the ship loaded, whatever the four flags are, one tick moves the ship by
  0.3 times its world direction before the tick. Changing the forward and backward
  flags changes the pitch target (0.2 for backward, -0.2 for forward, 0 for neither)
  and leaves the new position, yaw, roll and camera pivot as they were.
\<close>

theorem ship_translates_unconditionally:
  assumes "spaceShip w = Some s"
  shows "\<exists>s1 s2. spaceShip (moveAndRotateSpaceShip g w) = Some s1
           \<and> spaceShip (moveAndRotateSpaceShip g (w\<lparr>moveForward := f, moveBackward := b\<rparr>)) = Some s2
           \<and> position s1 = Vector3_add (position s) (multiplyScalar (g s) 0.3)
           \<and> position s2 = position s1 \<and> yaw s2 = yaw s1 \<and> roll s2 = roll s1
           \<and> pitch s2 = lerp (pitch s) (if b then 0.2 else if f then - 0.2 else 0) 0.03
           \<and> cameraPivot (moveAndRotateSpaceShip g (w\<lparr>moveForward := f, moveBackward := b\<rparr>))
               = cameraPivot (moveAndRotateSpaceShip g w)"
  using assms by (auto simp add: step_Some step_pivot yaw_def roll_def pitch_def)

text \<open>
  Witness for C2: the ship as loaded, facing the \<open>z\<close> axis, with no key held and
  with both W and S held, ends the tick at \<open>(20, 0, -499.7)\<close>.
\<close>

theorem ship_translates_unconditionally_witness:
  "spaceShip shipWorld = Some loadedShip \<and>
   (\<exists>s1 s2. spaceShip (moveAndRotateSpaceShip zAxis shipWorld) = Some s1
      \<and> spaceShip (moveAndRotateSpaceShip zAxis
            (shipWorld\<lparr>moveForward := True, moveBackward := True\<rparr>)) = Some s2
      \<and> position s1 = Vector3_set 20 0 (- 499.7)
      \<and> position s2 = position s1 \<and> yaw s2 = yaw s1 \<and> roll s2 = roll s1
      \<and> pitch s2 = 0.006)"
proof -
  have h: "spaceShip shipWorld = Some loadedShip"
    by (simp add: shipWorld_def)
  have p: "Vector3_add (position loadedShip) (multiplyScalar (zAxis loadedShip) 0.3)
             = Vector3_set 20 0 (- 499.7)"
    by (simp add: loadedShip_def zAxis_def Vector3_add_def multiplyScalar_def Vector3_set_def)
  have q: "lerp (pitch loadedShip) (if True then 0.2 else if True then - 0.2 else 0) 0.03 = 0.006"
    by (simp add: loadedShip_def pitch_def lerp_def)
  from ship_translates_unconditionally [OF h, of zAxis True True] h
  show ?thesis unfolding p q by blast
qed

text \<open>
  C3: while \<^verbatim>\<open>spaceShip\<close> is \<^verbatim>\<open>null\<close>, a tick returns the world as it was, whatever
  the four flags have been set to: ship, camera pivot and flags are unchanged. The
  function has no statement outside the guard, so nothing can throw.
\<close>

theorem unloaded_ship_advance_noop:
  assumes "spaceShip w = None"
  shows "moveAndRotateSpaceShip g
           (w\<lparr>moveForward := f, moveBackward := b, rotateLeft := l, rotateRight := r\<rparr>)
         = w\<lparr>moveForward := f, moveBackward := b, rotateLeft := l, rotateRight := r\<rparr>"
  using assms by (simp add: moveAndRotateSpaceShip_def)

text \<open>Witness for C3: the world before loading, every flag set.\<close>

theorem unloaded_ship_advance_noop_witness:
  "spaceShip unloadedWorld = None \<and>
   moveAndRotateSpaceShip zAxis
     (unloadedWorld\<lparr>moveForward := True, moveBackward := True, rotateLeft := True,
        rotateRight := True\<rparr>)
   = unloadedWorld\<lparr>moveForward := True, moveBackward := True, rotateLeft := True,
        rotateRight := True\<rparr>"
proof -
  have h: "spaceShip unloadedWorld = None"
    by (simp add: unloadedWorld_def)
  from unloaded_ship_advance_noop [OF h, of zAxis True True True True] h
  show ?thesis by blast
qed

text \<open>
  C4: with the ship loaded, after a tick the pivot's position is the ship's new
  position, the pivot's yaw has changed by the same amount as the ship's yaw, and
  so the yaw offset between pivot and ship is what it was before the tick.
\<close>

theorem camera_pivot_follows_ship:
  assumes "spaceShip w = Some s"
  shows "\<exists>s'. spaceShip (moveAndRotateSpaceShip g w) = Some s'
     \<and> position (cameraPivot (moveAndRotateSpaceShip g w)) = position s'
     \<and> yaw (cameraPivot (moveAndRotateSpaceShip g w)) - yaw (cameraPivot w) = yaw s' - yaw s
     \<and> yaw (cameraPivot (moveAndRotateSpaceShip g w)) - yaw s' = yaw (cameraPivot w) - yaw s"
  using assms by (simp add: step_Some step_pivot yaw_def)

text \<open>
  Witness for C4: the ship as loaded with D held and the pivot already turned by 1
  rad; the offset of 1 rad is kept (a copy of the ship's yaw would lose it).
\<close>

theorem camera_pivot_follows_ship_witness:
  "spaceShip (shipWorld\<lparr>cameraPivot := originPivot\<lparr>rotation := \<lparr>rot_x = 0, rot_y = 1, rot_z = 0\<rparr>\<rparr>,
      rotateRight := True\<rparr>) = Some loadedShip \<and>
   (\<exists>s'. spaceShip (moveAndRotateSpaceShip zAxis
             (shipWorld\<lparr>cameraPivot := originPivot\<lparr>rotation := \<lparr>rot_x = 0, rot_y = 1, rot_z = 0\<rparr>\<rparr>,
                rotateRight := True\<rparr>)) = Some s'
      \<and> position (cameraPivot (moveAndRotateSpaceShip zAxis
             (shipWorld\<lparr>cameraPivot := originPivot\<lparr>rotation := \<lparr>rot_x = 0, rot_y = 1, rot_z = 0\<rparr>\<rparr>,
                rotateRight := True\<rparr>))) = position s'
      \<and> yaw (cameraPivot (moveAndRotateSpaceShip zAxis
             (shipWorld\<lparr>cameraPivot := originPivot\<lparr>rotation := \<lparr>rot_x = 0, rot_y = 1, rot_z = 0\<rparr>\<rparr>,
                rotateRight := True\<rparr>))) - yaw s' = 1)"
proof -
  let ?w = "shipWorld\<lparr>cameraPivot := originPivot\<lparr>rotation := \<lparr>rot_x = 0, rot_y = 1, rot_z = 0\<rparr>\<rparr>,
      rotateRight := True\<rparr>"
  have h: "spaceShip ?w = Some loadedShip"
    by (simp add: shipWorld_def)
  have o: "yaw (cameraPivot ?w) - yaw loadedShip = 1"
    by (simp add: yaw_def loadedShip_def)
  from camera_pivot_follows_ship [OF h, of zAxis] h
  show ?thesis unfolding o by blast
qed

text \<open>
  C5: with the ship loaded, when S and W are both held the pitch moves toward the
  backward target 0.2; when A and D are both held the yaw of ship and pivot grows
  by 0.005 and the roll moves toward -0.4, as for A alone.
\<close>

theorem opposite_flags_first_match_wins:
  assumes "spaceShip w = Some s"
  shows "(moveBackward w \<and> moveForward w \<longrightarrow>
            (\<exists>s'. spaceShip (moveAndRotateSpaceShip g w) = Some s'
               \<and> pitch s' = lerp (pitch s) 0.2 0.03))
       \<and> (rotateLeft w \<and> rotateRight w \<longrightarrow>
            (\<exists>s'. spaceShip (moveAndRotateSpaceShip g w) = Some s'
               \<and> yaw s' = yaw s + 0.005
               \<and> roll s' = lerp (roll s) (- 0.4) 0.03
               \<and> yaw (cameraPivot (moveAndRotateSpaceShip g w)) = yaw (cameraPivot w) + 0.005))"
  using assms by (simp add: step_Some step_pivot yaw_def pitch_def roll_def)

text \<open>
  Witness for C5: the ship as loaded with all four keys held; pitch becomes 0.006,
  yaw 0.005 and roll -0.012.
\<close>

theorem opposite_flags_first_match_wins_witness:
  "spaceShip allKeysWorld = Some loadedShip \<and>
   moveBackward allKeysWorld \<and> moveForward allKeysWorld \<and>
   rotateLeft allKeysWorld \<and> rotateRight allKeysWorld \<and>
   (\<exists>s'. spaceShip (moveAndRotateSpaceShip zAxis allKeysWorld) = Some s' \<and> pitch s' = 0.006) \<and>
   (\<exists>s'. spaceShip (moveAndRotateSpaceShip zAxis allKeysWorld) = Some s'
      \<and> yaw s' = 0.005 \<and> roll s' = - 0.012
      \<and> yaw (cameraPivot (moveAndRotateSpaceShip zAxis allKeysWorld)) = 0.005)"
proof -
  have h: "spaceShip allKeysWorld = Some loadedShip"
    by (simp add: allKeysWorld_def shipWorld_def)
  have f: "moveBackward allKeysWorld" "moveForward allKeysWorld"
    "rotateLeft allKeysWorld" "rotateRight allKeysWorld"
    by (simp_all add: allKeysWorld_def)
  have v: "lerp (pitch loadedShip) 0.2 0.03 = 0.006" "yaw loadedShip + 0.005 = 0.005"
    "lerp (roll loadedShip) (- 0.4) 0.03 = - 0.012"
    "yaw (cameraPivot allKeysWorld) + 0.005 = 0.005"
    by (simp_all add: loadedShip_def originPivot_def allKeysWorld_def shipWorld_def
          pitch_def yaw_def roll_def lerp_def)
  from opposite_flags_first_match_wins [OF h, of zAxis] h f
  show ?thesis unfolding v by blast
qed

text \<open>
  C6: with the ship loaded, if the roll is within 0.4 rad and the pitch within
  0.2 rad of level before a tick, they are so after it, whatever the four flags
  are. The statement is over the reals.
\<close>

theorem tilt_bounds_preserved:
  assumes "spaceShip w = Some s" and "tiltBounded s"
  shows "\<exists>s'. spaceShip (moveAndRotateSpaceShip g
                  (w\<lparr>moveForward := f, moveBackward := b, rotateLeft := l, rotateRight := r\<rparr>))
                = Some s' \<and> tiltBounded s'"
proof -
  let ?w = "w\<lparr>moveForward := f, moveBackward := b, rotateLeft := l, rotateRight := r\<rparr>"
  from assms(1) have s: "spaceShip ?w = Some s" by simp
  then obtain s' where s': "spaceShip (moveAndRotateSpaceShip g ?w) = Some s'"
    using step_loaded by blast
  from assms(2) have r: "\<bar>roll s\<bar> \<le> 0.4" and p: "\<bar>pitch s\<bar> \<le> 0.2"
    by (simp_all add: tiltBounded_def)
  have "\<bar>(if rotateLeft ?w then - 0.4 else if rotateRight ?w then 0.4 else 0 :: real)\<bar> \<le> 0.4"
    by simp
  with r have "\<bar>roll s'\<bar> \<le> 0.4"
    unfolding step_roll [OF s s'] by (rule lerp_bound)
  moreover
  have "\<bar>(if moveBackward ?w then 0.2 else if moveForward ?w then - 0.2 else 0 :: real)\<bar> \<le> 0.2"
    by simp
  with p have "\<bar>pitch s'\<bar> \<le> 0.2"
    unfolding step_pitch [OF s s'] by (rule lerp_bound)
  ultimately show ?thesis using s' by (simp add: tiltBounded_def)
qed

text \<open>
  Witness for C6: a ship at the very bounds (roll -0.4, pitch 0.2), with S and A
  held so that both targets are the bounds themselves.
\<close>

theorem tilt_bounds_preserved_witness:
  "spaceShip (shipWorld\<lparr>spaceShip := Some tiltedShip\<rparr>) = Some tiltedShip \<and>
   tiltBounded tiltedShip \<and>
   (\<exists>s'. spaceShip (moveAndRotateSpaceShip zAxis
             (shipWorld\<lparr>spaceShip := Some tiltedShip, moveForward := False, moveBackward := True,
                rotateLeft := True, rotateRight := False\<rparr>)) = Some s' \<and> tiltBounded s')"
proof -
  have h1: "spaceShip (shipWorld\<lparr>spaceShip := Some tiltedShip\<rparr>) = Some tiltedShip"
    by simp
  have h2: "tiltBounded tiltedShip"
    by (simp add: tiltBounded_def tiltedShip_def roll_def pitch_def)
  from tilt_bounds_preserved [OF h1 h2, of zAxis False True True False] h1 h2
  show ?thesis by simp
qed

section \<open>Several ticks with A held\<close>







section \<open>Key events\<close>

text \<open>
  C10: for a key that lower-cases to the key of direction \<open>d\<close>, key-down sets the
  flag of \<open>d\<close> and nothing else when the ship view is selected and the ship is
  loaded, and changes nothing otherwise; key-up clears the flag of \<open>d\<close> and changes
  nothing else, in every world. So after key-up the flag is false, also when the
  view has been changed to any \<open>cp\<close> between key-down and key-up.
\<close>

theorem key_events_set_and_clear_flags:
  assumes "toLowerCase key = keyOf d"
  shows "keydown key w =
           (if spacial (currentPlanet w) \<and> spaceShip w \<noteq> None then setFlag d True w else w)
       \<and> flag d (keydown key w) = ((spacial (currentPlanet w) \<and> spaceShip w \<noteq> None) \<or> flag d w)
       \<and> keyup key w = setFlag d False w
       \<and> \<not> flag d (keyup key w)
       \<and> \<not> flag d (keyup key ((keydown key w)\<lparr>currentPlanet := cp\<rparr>))"
proof -
  have up: "keyup key v = setFlag d False v" for v
    using assms by (cases d) (simp_all add: keyup_def Let_def)
  have clear: "\<not> flag d (setFlag d False v)" for v
    by (cases d) simp_all
  have down: "keydown key w =
           (if spacial (currentPlanet w) \<and> spaceShip w \<noteq> None then setFlag d True w else w)"
    using assms by (cases d) (auto simp add: keydown_def Let_def)
  have "flag d (setFlag d True w)"
    by (cases d) simp_all
  with down have "flag d (keydown key w)
      = ((spacial (currentPlanet w) \<and> spaceShip w \<noteq> None) \<or> flag d w)"
    by auto
  with down up clear show ?thesis by simp
qed

text \<open>
  Witness for C10: capital W. In the ship view with the ship loaded, key-down sets
  \<^verbatim>\<open>moveForward\<close>; before the ship has loaded, and in the free view, it does
  not; key-up clears it after the view has changed to the free view.
\<close>

theorem key_events_set_and_clear_flags_witness:
  "toLowerCase ''W'' = keyOf Forward \<and>
   keydown ''W'' shipWorld = shipWorld\<lparr>moveForward := True\<rparr> \<and>
   moveForward (keydown ''W'' shipWorld) \<and>
   keydown ''W'' (unloadedWorld\<lparr>moveForward := False\<rparr>) = unloadedWorld\<lparr>moveForward := False\<rparr> \<and>
   keydown ''W'' (shipWorld\<lparr>currentPlanet := Null\<rparr>) = shipWorld\<lparr>currentPlanet := Null\<rparr> \<and>
   \<not> moveForward (keyup ''W'' ((keydown ''W'' shipWorld)\<lparr>currentPlanet := Null\<rparr>))"
proof -
  have h: "toLowerCase ''W'' = keyOf Forward"
    by code_simp
  have g1: "spacial (currentPlanet shipWorld) \<and> spaceShip shipWorld \<noteq> None"
    by (simp add: shipWorld_def)
  have g2: "\<not> (spacial (currentPlanet (unloadedWorld\<lparr>moveForward := False\<rparr>))
            \<and> spaceShip (unloadedWorld\<lparr>moveForward := False\<rparr>) \<noteq> None)"
    by (simp add: unloadedWorld_def)
  have g3: "\<not> (spacial (currentPlanet (shipWorld\<lparr>currentPlanet := Null\<rparr>))
            \<and> spaceShip (shipWorld\<lparr>currentPlanet := Null\<rparr>) \<noteq> None)"
    by simp
  from key_events_set_and_clear_flags [OF h, of shipWorld Null] g1
  have a: "keydown ''W'' shipWorld = shipWorld\<lparr>moveForward := True\<rparr>"
    "moveForward (keydown ''W'' shipWorld)"
    "\<not> moveForward (keyup ''W'' ((keydown ''W'' shipWorld)\<lparr>currentPlanet := Null\<rparr>))"
    by auto
  from key_events_set_and_clear_flags [OF h, of "unloadedWorld\<lparr>moveForward := False\<rparr>" Null] g2
  have b: "keydown ''W'' (unloadedWorld\<lparr>moveForward := False\<rparr>) = unloadedWorld\<lparr>moveForward := False\<rparr>"
    by simp
  from key_events_set_and_clear_flags [OF h, of "shipWorld\<lparr>currentPlanet := Null\<rparr>" Null] g3
  have c: "keydown ''W'' (shipWorld\<lparr>currentPlanet := Null\<rparr>) = shipWorld\<lparr>currentPlanet := Null\<rparr>"
    by simp
  from h a b c show ?thesis by simp
qed

end
